theory Spec2Isabelle
  imports Main
begin

section \<open>The React bindings: \<^verbatim>\<open>packages/liveblocks-react/src/factory.tsx\<close>\<close>

text \<open>
  \<^verbatim>\<open>createRoomContext(client)\<close> builds a React context holding a \<^verbatim>\<open>Room | null\<close>
  (default \<^verbatim>\<open>null\<close>), the \<^verbatim>\<open>RoomProvider\<close> component and the hooks. A hook call is
  modelled as a function of what it reads while it renders: the value of the
  context at the call site (\<open>None\<close> for \<^verbatim>\<open>null\<close>, that is, no \<^verbatim>\<open>RoomProvider\<close> above),
  its arguments, and the React state cells it owns. A JavaScript \<^verbatim>\<open>throw\<close> is the
  left injection of a sum. Effects registered with \<^verbatim>\<open>React.useEffect\<close> run after
  the render has returned; a render that throws registers none.
\<close>

subsection \<open>Errors and sequencing\<close>

datatype error = Error string

definition and_then :: "error + 'a \<Rightarrow> ('a \<Rightarrow> error + 'b) \<Rightarrow> error + 'b" where
  "and_then r f = (case r of Inl e \<Rightarrow> Inl e | Inr a \<Rightarrow> f a)"

subsection \<open>The Room object, as the hooks read it\<close>

text \<open>
  The \<^verbatim>\<open>Room\<close> class lives in \<^verbatim>\<open>@liveblocks/client\<close>; the bindings only read
  its members. Getter methods are fields holding what the method returns at the
  moment of the render; methods that the hooks hand out without calling them
  (\<^verbatim>\<open>batch\<close>, \<^verbatim>\<open>history.undo\<close>, ...) are opaque function objects of type \<open>'f\<close>.
\<close>

record 'f history =
  undo :: 'f
  redo :: 'f
  canUndo :: bool
  canRedo :: bool

record ('p, 'o, 'u, 'f) room =
  getPresence :: 'p
  getOthers :: 'o
  getSelf :: "'u option"
  updatePresence :: 'f
  broadcastEvent :: 'f
  batch :: 'f
  history :: "'f history"

datatype 'v LookupResult = Ok 'v | Loading | Notfound

subsection \<open>Hooks\<close>

text \<open>\<^verbatim>\<open>useInitial(value)\<close> is \<^verbatim>\<open>React.useRef(value).current\<close>: the ref cell is
  empty before the first render, which stores \<open>value\<close>; every later render reads
  the cell and ignores its argument.\<close>

definition useInitial :: "'a \<Rightarrow> 'a option \<Rightarrow> 'a" where
  "useInitial v cell = (case cell of None \<Rightarrow> v | Some v0 \<Rightarrow> v0)"

definition useRoom :: "'r option \<Rightarrow> error + 'r" where
  "useRoom ctx =
     (case ctx of
        None \<Rightarrow> Inl (Error ''RoomProvider is missing from the react tree'')
      | Some room \<Rightarrow> Inr room)"

text \<open>\<^verbatim>\<open>useMyPresence\<close> returns the pair of the current presence and a callback
  that forwards to \<^verbatim>\<open>room.updatePresence\<close>.\<close>

definition useMyPresence :: "('p, 'o, 'u, 'f) room option \<Rightarrow> error + ('p \<times> 'f)" where
  "useMyPresence ctx =
     and_then (useRoom ctx) (\<lambda>room. Inr (getPresence room, updatePresence room))"

definition useUpdateMyPresence :: "('p, 'o, 'u, 'f) room option \<Rightarrow> error + 'f" where
  "useUpdateMyPresence ctx = and_then (useRoom ctx) (\<lambda>room. Inr (updatePresence room))"

definition useOthers :: "('p, 'o, 'u, 'f) room option \<Rightarrow> error + 'o" where
  "useOthers ctx = and_then (useRoom ctx) (\<lambda>room. Inr (getOthers room))"

definition useBroadcastEvent :: "('p, 'o, 'u, 'f) room option \<Rightarrow> error + 'f" where
  "useBroadcastEvent ctx = and_then (useRoom ctx) (\<lambda>room. Inr (broadcastEvent room))"

text \<open>The two listener hooks return nothing; what they do after \<^verbatim>\<open>useRoom()\<close> is
  to store the callback in a ref and to register effects.\<close>

definition useErrorListener :: "('p, 'o, 'u, 'f) room option \<Rightarrow> error + unit" where
  "useErrorListener ctx = and_then (useRoom ctx) (\<lambda>room. Inr ())"

definition useEventListener :: "('p, 'o, 'u, 'f) room option \<Rightarrow> error + unit" where
  "useEventListener ctx = and_then (useRoom ctx) (\<lambda>room. Inr ())"

definition useSelf :: "('p, 'o, 'u, 'f) room option \<Rightarrow> error + 'u option" where
  "useSelf ctx = and_then (useRoom ctx) (\<lambda>room. Inr (getSelf room))"

text \<open>\<^verbatim>\<open>useStorageRoot\<close> keeps the root in a state cell that starts as \<^verbatim>\<open>null\<close> and
  is filled by an effect once \<^verbatim>\<open>room.getStorage()\<close> resolves; the render returns
  the cell.\<close>

definition useStorageRoot :: "('p, 'o, 'u, 'f) room option \<Rightarrow> 'root option \<Rightarrow> error + 'root option" where
  "useStorageRoot ctx root_cell = and_then (useRoom ctx) (\<lambda>room. Inr root_cell)"

text \<open>\<^verbatim>\<open>deprecate\<close> and \<^verbatim>\<open>errorIf\<close> are imported from \<^verbatim>\<open>@liveblocks/client/internal\<close>,
  which is not part of these sources: they are parameters, and either may throw.
  \<open>errorIf\<close> receives the truthiness of its first argument. The long message
  texts are cut to their first sentence.\<close>

definition useStorage ::
  "(string \<Rightarrow> error + unit) \<Rightarrow> ('p, 'o, 'u, 'f) room option \<Rightarrow> 'root option \<Rightarrow> error + 'root option" where
  "useStorage deprecate ctx root_cell =
     and_then (deprecate ''In the upcoming 0.18 version, the name `useStorage()` is going to be repurposed for a new hook.'')
       (\<lambda>_. useStorageRoot ctx root_cell)"

text \<open>\<^verbatim>\<open>useStorageValue(key, initialValue)\<close>: the root is a \<^verbatim>\<open>LiveObject\<close>, read with
  \<^verbatim>\<open>root.get(key)\<close>; a missing key reads as \<^verbatim>\<open>undefined\<close>. Writing the frozen
  initial value into the root happens in an effect, after the render.\<close>

definition useStorageValue ::
  "('p, 'o, 'u, 'f) room option \<Rightarrow> (string \<rightharpoonup> 'v) option \<Rightarrow> string \<Rightarrow> error + 'v LookupResult" where
  "useStorageValue ctx root_cell key =
     and_then (useRoom ctx) (\<lambda>room.
     and_then (useStorageRoot ctx root_cell) (\<lambda>root.
       (case root of
          None \<Rightarrow> Inr Loading
        | Some r \<Rightarrow> (case r key of None \<Rightarrow> Inr Notfound | Some v \<Rightarrow> Inr (Ok v)))))"

text \<open>\<^verbatim>\<open>useMap_deprecated\<close>, \<^verbatim>\<open>useList_deprecated\<close> and \<^verbatim>\<open>useObject_deprecated\<close> have
  the same shape: \<^verbatim>\<open>errorIf\<close> on the optional second argument, the lookup, and on a
  lookup that is not \<^verbatim>\<open>ok\<close> a second \<^verbatim>\<open>errorIf\<close> before returning \<^verbatim>\<open>null\<close>.\<close>

definition useMap_deprecated ::
  "(bool \<Rightarrow> string \<Rightarrow> error + unit) \<Rightarrow> ('p, 'o, 'u, 'f) room option \<Rightarrow> (string \<rightharpoonup> 'v) option
     \<Rightarrow> string \<Rightarrow> 'e option \<Rightarrow> error + 'v option" where
  "useMap_deprecated errorIf ctx root_cell key entries =
     and_then (errorIf (entries \<noteq> None)
        ''Support for initializing entries in useMap() directly will be removed in @liveblocks/react 0.18.'')
       (\<lambda>_.
     and_then (useStorageValue ctx root_cell key) (\<lambda>value.
       (case value of
          Ok v \<Rightarrow> Inr (Some v)
        | _ \<Rightarrow> and_then (errorIf (value = Notfound) ''Key was not found in Storage.'')
                 (\<lambda>_. Inr None))))"

definition useList_deprecated ::
  "(bool \<Rightarrow> string \<Rightarrow> error + unit) \<Rightarrow> ('p, 'o, 'u, 'f) room option \<Rightarrow> (string \<rightharpoonup> 'v) option
     \<Rightarrow> string \<Rightarrow> 'e option \<Rightarrow> error + 'v option" where
  "useList_deprecated errorIf ctx root_cell key items =
     and_then (errorIf (items \<noteq> None)
        ''Support for initializing items in useList() directly will be removed in @liveblocks/react 0.18.'')
       (\<lambda>_.
     and_then (useStorageValue ctx root_cell key) (\<lambda>value.
       (case value of
          Ok v \<Rightarrow> Inr (Some v)
        | _ \<Rightarrow> and_then (errorIf (value = Notfound) ''Key was not found in Storage.'')
                 (\<lambda>_. Inr None))))"

definition useObject_deprecated ::
  "(bool \<Rightarrow> string \<Rightarrow> error + unit) \<Rightarrow> ('p, 'o, 'u, 'f) room option \<Rightarrow> (string \<rightharpoonup> 'v) option
     \<Rightarrow> string \<Rightarrow> 'e option \<Rightarrow> error + 'v option" where
  "useObject_deprecated errorIf ctx root_cell key initialData =
     and_then (errorIf (initialData \<noteq> None)
        ''Support for initializing data in useObject() directly will be removed in @liveblocks/react 0.18.'')
       (\<lambda>_.
     and_then (useStorageValue ctx root_cell key) (\<lambda>value.
       (case value of
          Ok v \<Rightarrow> Inr (Some v)
        | _ \<Rightarrow> and_then (errorIf (value = Notfound) ''Key was not found in Storage.'')
                 (\<lambda>_. Inr None))))"

text \<open>The undeprecated hooks call the deprecated ones with the key alone.\<close>

definition useList ::
  "(bool \<Rightarrow> string \<Rightarrow> error + unit) \<Rightarrow> ('p, 'o, 'u, 'f) room option \<Rightarrow> (string \<rightharpoonup> 'v) option
     \<Rightarrow> string \<Rightarrow> error + 'v option" where
  "useList errorIf ctx root_cell key =
     useList_deprecated errorIf ctx root_cell key (None :: unit option)"

definition useMap ::
  "(bool \<Rightarrow> string \<Rightarrow> error + unit) \<Rightarrow> ('p, 'o, 'u, 'f) room option \<Rightarrow> (string \<rightharpoonup> 'v) option
     \<Rightarrow> string \<Rightarrow> error + 'v option" where
  "useMap errorIf ctx root_cell key =
     useMap_deprecated errorIf ctx root_cell key (None :: unit option)"

definition useObject ::
  "(bool \<Rightarrow> string \<Rightarrow> error + unit) \<Rightarrow> ('p, 'o, 'u, 'f) room option \<Rightarrow> (string \<rightharpoonup> 'v) option
     \<Rightarrow> string \<Rightarrow> error + 'v option" where
  "useObject errorIf ctx root_cell key =
     useObject_deprecated errorIf ctx root_cell key (None :: unit option)"

definition useHistory :: "('p, 'o, 'u, 'f) room option \<Rightarrow> error + 'f history" where
  "useHistory ctx = and_then (useRoom ctx) (\<lambda>room. Inr (history room))"

definition useUndo :: "('p, 'o, 'u, 'f) room option \<Rightarrow> error + 'f" where
  "useUndo ctx = and_then (useHistory ctx) (\<lambda>h. Inr (undo h))"

definition useRedo :: "('p, 'o, 'u, 'f) room option \<Rightarrow> error + 'f" where
  "useRedo ctx = and_then (useHistory ctx) (\<lambda>h. Inr (redo h))"

text \<open>\<^verbatim>\<open>useCanUndo\<close> holds a boolean state cell. \<^verbatim>\<open>React.useState\<close> is given the
  function \<^verbatim>\<open>room.history.canUndo\<close>, which React calls once, on the first render
  (empty cell), to get the initial state; the cell is later overwritten by the
  \<^verbatim>\<open>"history"\<close> subscription.\<close>

definition useCanUndo :: "('p, 'o, 'u, 'f) room option \<Rightarrow> bool option \<Rightarrow> error + bool" where
  "useCanUndo ctx cell =
     and_then (useRoom ctx) (\<lambda>room.
       Inr (case cell of None \<Rightarrow> canUndo (history room) | Some b \<Rightarrow> b))"

definition useCanRedo :: "('p, 'o, 'u, 'f) room option \<Rightarrow> bool option \<Rightarrow> error + bool" where
  "useCanRedo ctx cell =
     and_then (useRoom ctx) (\<lambda>room.
       Inr (case cell of None \<Rightarrow> canRedo (history room) | Some b \<Rightarrow> b))"

definition useBatch :: "('p, 'o, 'u, 'f) room option \<Rightarrow> error + 'f" where
  "useBatch ctx = and_then (useRoom ctx) (\<lambda>room. Inr (batch room))"

subsection \<open>\<^verbatim>\<open>RoomProvider\<close>\<close>

text \<open>
  \<^verbatim>\<open>RoomInitializers\<close> is declared in \<^verbatim>\<open>@liveblocks/client/internal\<close>; the component
  reads the four fields below, each of them optional (\<open>None\<close> for \<^verbatim>\<open>undefined\<close>).
  The props add the room id (and the children, which play no part here); the
  options given to \<^verbatim>\<open>client.enter\<close> add \<^verbatim>\<open>DO_NOT_USE_withoutConnecting\<close>.
  The id is typed \<^verbatim>\<open>string\<close>, but the component checks it at run time, so the model
  keeps the values the check tells apart: \<^verbatim>\<open>null\<close>/\<^verbatim>\<open>undefined\<close>, a string, anything
  else.
\<close>

datatype js_id = IdNull | IdString string | IdOther

record ('p, 's) RoomInitializers =
  initialPresence :: "'p option"
  initialStorage :: "'s option"
  defaultPresence :: "'p option"
  defaultStorageRoot :: "'s option"

record ('p, 's) RoomProviderProps = "('p, 's) RoomInitializers" +
  id_prop :: js_id

record ('p, 's) enter_options = "('p, 's) RoomInitializers" +
  DO_NOT_USE_withoutConnecting :: bool

text \<open>The calls a component makes on the client, in order.\<close>

datatype ('c, 'p, 's) client_call =
  Enter 'c js_id "('p, 's) enter_options"
| Leave 'c js_id

text \<open>
  What React keeps for one mounted \<^verbatim>\<open>RoomProvider\<close> between renders: the ref cell
  of \<^verbatim>\<open>useInitial\<close>, the state cell of \<^verbatim>\<open>useState\<close>, and the dependency list
  \<^verbatim>\<open>[_client, roomId, frozen]\<close> of the effect that ran last. All three are empty
  before the first render.
\<close>

record ('c, 'p, 's, 'r) fiber =
  frozen_cell :: "('p, 's) RoomInitializers option"
  room_cell :: "'r option"
  effect_deps :: "('c \<times> js_id \<times> ('p, 's) RoomInitializers) option"

definition mount_fiber :: "('c, 'p, 's, 'r) fiber" where
  "mount_fiber = \<lparr>frozen_cell = None, room_cell = None, effect_deps = None\<rparr>"

text \<open>
  What a render reads from outside the component: whether
  \<^verbatim>\<open>process.env.NODE_ENV\<close> is \<^verbatim>\<open>"production"\<close>, whether \<^verbatim>\<open>typeof window\<close> is
  \<^verbatim>\<open>"undefined"\<close>, the imported \<^verbatim>\<open>errorIf\<close>, and the room that \<^verbatim>\<open>client.enter\<close>
  returns (the client itself is \<^verbatim>\<open>useClient()\<close>, an input of each render).
\<close>

record ('c, 'p, 's, 'r) env =
  production :: bool
  window_undefined :: bool
  errorIf :: "bool \<Rightarrow> string \<Rightarrow> error + unit"
  enter :: "'c \<Rightarrow> js_id \<Rightarrow> ('p, 's) enter_options \<Rightarrow> 'r"

definition enter_options_of :: "('p, 's) RoomInitializers \<Rightarrow> bool \<Rightarrow> ('p, 's) enter_options" where
  "enter_options_of i w =
     \<lparr>initialPresence = initialPresence i, initialStorage = initialStorage i,
      defaultPresence = defaultPresence i, defaultStorageRoot = defaultStorageRoot i,
      DO_NOT_USE_withoutConnecting = w\<rparr>"

definition initializers_of :: "('p, 's) RoomProviderProps \<Rightarrow> ('p, 's) RoomInitializers" where
  "initializers_of props =
     \<lparr>initialPresence = initialPresence props, initialStorage = initialStorage props,
      defaultPresence = defaultPresence props, defaultStorageRoot = defaultStorageRoot props\<rparr>"

text \<open>The clean-up function of the effect that ran last: \<^verbatim>\<open>_client.leave(roomId)\<close>
  with the client and the id of that run.\<close>

definition cleanup :: "('c, 'p, 's, 'r) fiber \<Rightarrow> ('c, 'p, 's) client_call list" where
  "cleanup fb = (case effect_deps fb of None \<Rightarrow> [] | Some (c0, id0, _) \<Rightarrow> [Leave c0 id0])"

text \<open>
  One render of \<^verbatim>\<open>RoomProvider\<close> together with the effect phase that follows it.
  In source order: the two checks on the id (skipped in production), the two
  \<^verbatim>\<open>errorIf\<close> calls, \<^verbatim>\<open>useInitial\<close>, \<^verbatim>\<open>useState\<close> with its lazy initialiser (run only
  while the state cell is empty; it calls \<^verbatim>\<open>enter\<close> with the props of this render),
  and \<^verbatim>\<open>useEffect\<close>: when the dependency list differs from that of the last run
  (or there was none), React runs the previous clean-up and then the effect, which
  calls \<^verbatim>\<open>enter\<close> with the frozen fields and stores the room with \<^verbatim>\<open>setRoom\<close>. The
  result is the new fiber, the room given to the context provider, and the
  client calls made.
\<close>

definition RoomProvider ::
  "('c, 'p, 's, 'r) env \<Rightarrow> 'c \<Rightarrow> ('p, 's) RoomProviderProps \<Rightarrow> ('c, 'p, 's, 'r) fiber
     \<Rightarrow> error + (('c, 'p, 's, 'r) fiber \<times> 'r \<times> ('c, 'p, 's) client_call list)" where
  "RoomProvider e client props fb =
     (let roomId = id_prop props in
      if \<not> production e \<and> roomId = IdNull then
        Inl (Error ''RoomProvider id property is required.'')
      else if \<not> production e \<and> (case roomId of IdString _ \<Rightarrow> False | _ \<Rightarrow> True) then
        Inl (Error ''RoomProvider id property should be a string.'')
      else
        and_then (errorIf e (defaultPresence props \<noteq> None)
          ''RoomProvider's `defaultPresence` prop will be removed in @liveblocks/react 0.18.'') (\<lambda>_.
        and_then (errorIf e (defaultStorageRoot props \<noteq> None)
          ''RoomProvider's `defaultStorageRoot` prop will be removed in @liveblocks/react 0.18.'') (\<lambda>_.
          let frozen = useInitial (initializers_of props) (frozen_cell fb);
              initial = enter_options_of (initializers_of props) (window_undefined e);
              (room, calls) =
                (case room_cell fb of
                   None \<Rightarrow> (enter e client roomId initial, [Enter client roomId initial])
                 | Some r \<Rightarrow> (r, []));
              deps = (client, roomId, frozen)
          in if effect_deps fb = Some deps then
               Inr (fb\<lparr>frozen_cell := Some frozen, room_cell := Some room\<rparr>, room, calls)
             else
               let opts = enter_options_of frozen (window_undefined e);
                   room' = enter e client roomId opts
               in Inr (\<lparr>frozen_cell = Some frozen, room_cell = Some room', effect_deps = Some deps\<rparr>,
                       room', calls @ cleanup fb @ [Enter client roomId opts]))))"

text \<open>
  A mounted component is rendered again and again, each time with the client and
  the props of that render. A render that throws unmounts the component: React
  runs the clean-up of the last effect and renders it no more.
\<close>

fun renders ::
  "('c, 'p, 's, 'r) env \<Rightarrow> ('c \<times> ('p, 's) RoomProviderProps) list \<Rightarrow> ('c, 'p, 's, 'r) fiber
     \<Rightarrow> ('c, 'p, 's) client_call list" where
  "renders e [] fb = []"
| "renders e ((client, props) # rest) fb =
     (case RoomProvider e client props fb of
        Inl err \<Rightarrow> cleanup fb
      | Inr (fb', room, calls) \<Rightarrow> calls @ renders e rest fb')"

section \<open>The room engine behind the bindings\<close>

text \<open>
  The hooks \<^verbatim>\<open>useBatch\<close>, \<^verbatim>\<open>useUndo\<close> and \<^verbatim>\<open>useRedo\<close> return \<^verbatim>\<open>room.batch\<close>,
  \<^verbatim>\<open>room.history.undo\<close> and \<^verbatim>\<open>room.history.redo\<close> untouched. These methods belong to
  the package \<^verbatim>\<open>@liveblocks/client\<close>, whose sources are not among the files at hand
  (only its \<^verbatim>\<open>package.json\<close> is). Every definition of this section is therefore
  written from the specification (sections 3, 4.2, 4.3 and 4.4) and says so.
\<close>

subsection \<open>Data model\<close>

text \<open>Modelled from the spec: the Storage Engine is missing. The spec gives its
  contract \<^verbatim>\<open>applyLocal(op)\<close>, says that every Operation carries a target NodeId
  and that the History Manager records inverse Operations. The engine is a
  parameter: \<open>applyLocal op s\<close> is the storage after \<open>op\<close> together with the
  inverse operation, \<open>target op\<close> is the node the operation changes.\<close>

record ('s, 'op) storage_engine =
  applyLocal :: "'op \<Rightarrow> 's \<Rightarrow> 's \<times> 'op"
  target :: "'op \<Rightarrow> nat"

text \<open>Modelled from the spec: the Presence type is missing. "Presence: per-connection
  mapping of JSON-serializable key to Value". A snapshot maps a key to its value,
  \<open>None\<close> for a key that is not set; a delta lists the keys it overwrites with
  their new values (\<open>None\<close> unsets the key), the first entry of a key counting.\<close>

type_synonym 'v presence = "string \<Rightarrow> 'v option"

type_synonym 'v presence_delta = "(string \<times> 'v option) list"

text \<open>Modelled from the spec: "HistoryItem: an ordered sequence of inverse Operations
  plus an inverse Presence delta, produced atomically per committed batch".\<close>

record ('op, 'v) HistoryItem =
  inverse_ops :: "'op list"
  inverse_presence :: "'v presence_delta"

text \<open>Modelled from the spec: "a single outgoing message bundles all operations plus
  the latest Presence delta".\<close>

datatype ('op, 'v) message = Message "'op list" "'v presence_delta"

text \<open>Modelled from the spec: the targets of \<^verbatim>\<open>room.subscribe\<close> that a local change
  can notify: a CRDT node, the topic \<^verbatim>\<open>"my-presence"\<close>, the topic \<^verbatim>\<open>"history"\<close>.\<close>

datatype subscription_target = Node nat | MyPresence | HistoryTopic

text \<open>Modelled from the spec: the Room of section 3, reduced to what local batches and the
  History Manager touch: the Storage root, the local presence snapshot, the two
  history stacks (top first), the History Manager's state (\<open>Active\<close> or
  \<open>Paused\<close>) with the inverses collected while paused, the messages handed to
  the connection (oldest first) and the notifications given to subscribers
  (oldest first).\<close>

record ('s, 'op, 'v) room_state =
  storage :: 's
  presence :: "'v presence"
  undoStack :: "('op, 'v) HistoryItem list"
  redoStack :: "('op, 'v) HistoryItem list"
  paused :: bool
  pausedItem :: "('op, 'v) HistoryItem"
  outbox :: "('op, 'v) message list"
  notifications :: "subscription_target list"

text \<open>Modelled from the spec: "Batch: a local, transient accumulator of Operations +
  Presence deltas during a scoped mutation window". Each presence update keeps
  its \<^verbatim>\<open>addToHistory\<close> flag.\<close>

record ('op, 'v) batch_buffer =
  buffered_ops :: "'op list"
  buffered_presence :: "('v presence_delta \<times> bool) list"

definition empty_buffer :: "('op, 'v) batch_buffer" where
  "empty_buffer = \<lparr>buffered_ops = [], buffered_presence = []\<rparr>"

text \<open>Modelled from the spec: what the function given to \<^verbatim>\<open>batch\<close> does, as the sequence of
  its calls into the room: a Storage mutation, \<^verbatim>\<open>updatePresence(partial,
  {addToHistory})\<close>, a nested \<^verbatim>\<open>batch\<close>, or a \<^verbatim>\<open>throw\<close> that nothing catches.\<close>

datatype ('op, 'v) command =
  Mutate 'op
| UpdatePresence "'v presence_delta" bool
| Batch "('op, 'v) command list"
| Throw error

subsection \<open>Presence\<close>

text \<open>Modelled from the spec: "A local update is a merge (shallow key overwrite) into the
  local presence snapshot".\<close>

definition merge_presence :: "'v presence \<Rightarrow> 'v presence_delta \<Rightarrow> 'v presence" where
  "merge_presence p d = (\<lambda>k. case map_of d k of None \<Rightarrow> p k | Some v \<Rightarrow> v)"

text \<open>Modelled from the spec: the "inverse Presence delta" of a HistoryItem: the keys of
  the delta with the values they had before.\<close>

definition inverse_delta :: "'v presence \<Rightarrow> 'v presence_delta \<Rightarrow> 'v presence_delta" where
  "inverse_delta p d = map (\<lambda>(k, _). (k, p k)) d"

text \<open>Modelled from the spec: "the latest Presence delta" of a batch: its updates
  merged, a later update of a key hiding an earlier one.\<close>

definition latest_delta :: "('v presence_delta \<times> bool) list \<Rightarrow> 'v presence_delta" where
  "latest_delta us = concat (rev (map fst us))"

text \<open>Modelled from the spec: "Per-key presence deltas are tracked in history only for keys
  whose mutation explicitly opts in (an addToHistory flag on the presence update
  call)".\<close>

definition history_delta :: "('v presence_delta \<times> bool) list \<Rightarrow> 'v presence_delta" where
  "history_delta us = latest_delta (filter snd us)"

subsection \<open>Batch Controller\<close>

text \<open>Modelled from the spec: "executes fn, during which all Storage and Presence mutations
  are buffered rather than applied+sent individually", "nested batch calls are
  folded into the outermost batch's buffer", and an exception leaves the
  function.\<close>

fun collect :: "('op, 'v) command list \<Rightarrow> ('op, 'v) batch_buffer \<Rightarrow> error + ('op, 'v) batch_buffer" where
  "collect [] b = Inr b"
| "collect (Mutate op # cs) b = collect cs (b\<lparr>buffered_ops := buffered_ops b @ [op]\<rparr>)"
| "collect (UpdatePresence d h # cs) b =
     collect cs (b\<lparr>buffered_presence := buffered_presence b @ [(d, h)]\<rparr>)"
| "collect (Batch inner # cs) b =
     (case collect inner b of Inl e \<Rightarrow> Inl e | Inr b' \<Rightarrow> collect cs b')"
| "collect (Throw e # cs) b = Inl e"

text \<open>Modelled from the spec: "all buffered Storage operations are applied locally in
  issuance order"; the inverses come out in the order that undoes them, the last
  operation's first.\<close>

fun apply_ops :: "('s, 'op) storage_engine \<Rightarrow> 'op list \<Rightarrow> 's \<Rightarrow> 's \<times> 'op list" where
  "apply_ops E [] s = (s, [])"
| "apply_ops E (op # ops) s =
     (case applyLocal E op s of (s1, inv_op) \<Rightarrow>
        (case apply_ops E ops s1 of (s2, invs) \<Rightarrow> (s2, invs @ [inv_op])))"

text \<open>Modelled from the spec: "History is a bounded double-ended stack". The spec names no
  bound: it is the parameter \<open>cap\<close>, and a push onto a full stack drops the
  item at the far end.\<close>

definition push :: "nat \<Rightarrow> 'a \<Rightarrow> 'a list \<Rightarrow> 'a list" where
  "push cap x xs = take cap (x # xs)"

text \<open>Modelled from the spec: "canUndo()/canRedo() are O(1) stack-emptiness checks".\<close>

definition history_canUndo :: "('s, 'op, 'v) room_state \<Rightarrow> bool" where
  "history_canUndo r = (undoStack r \<noteq> [])"

definition history_canRedo :: "('s, 'op, 'v) room_state \<Rightarrow> bool" where
  "history_canRedo r = (redoStack r \<noteq> [])"

text \<open>Modelled from the spec: "each distinct changed node/topic notifies subscribers exactly
  once": the nodes the operations target, \<^verbatim>\<open>"my-presence"\<close> when a presence delta
  was merged, \<^verbatim>\<open>"history"\<close> when the pair (canUndo, canRedo) "changes", between the
  room before and the room after.\<close>

definition changed_targets ::
  "('s, 'op) storage_engine \<Rightarrow> 'op list \<Rightarrow> 'v presence_delta
     \<Rightarrow> ('s, 'op, 'v) room_state \<Rightarrow> ('s, 'op, 'v) room_state \<Rightarrow> subscription_target list" where
  "changed_targets E ops d r r' =
     remdups (map (\<lambda>op. Node (target E op)) ops)
     @ (if d = [] then [] else [MyPresence])
     @ (if (history_canUndo r, history_canRedo r) = (history_canUndo r', history_canRedo r')
        then [] else [HistoryTopic])"

text \<open>Modelled from the spec: "while paused, mutations still apply and transmit, but are not
  undoable as separate steps: they are coalesced into the next item produced
  after resume". The newer item's inverse operations run first; for a presence
  key in both, the older value is the one to restore.\<close>

definition coalesce :: "('op, 'v) HistoryItem \<Rightarrow> ('op, 'v) HistoryItem \<Rightarrow> ('op, 'v) HistoryItem" where
  "coalesce newer older =
     \<lparr>inverse_ops = inverse_ops newer @ inverse_ops older,
      inverse_presence = inverse_presence older @ inverse_presence newer\<rparr>"

definition empty_item :: "('op, 'v) HistoryItem" where
  "empty_item = \<lparr>inverse_ops = [], inverse_presence = []\<rparr>"

text \<open>Modelled from the spec: the History Manager's part of a commit. \<open>Active\<close>: "records
  one HistoryItem covering the whole batch", and "pushing to undo clears redo".
  \<open>Paused\<close>: nothing is pushed, the inverses wait for the next item.\<close>

definition record_history ::
  "nat \<Rightarrow> ('op, 'v) HistoryItem \<Rightarrow> ('s, 'op, 'v) room_state \<Rightarrow> ('s, 'op, 'v) room_state" where
  "record_history cap item r =
     (if paused r then r\<lparr>pausedItem := coalesce item (pausedItem r)\<rparr>
      else r\<lparr>undoStack := push cap (coalesce item (pausedItem r)) (undoStack r),
             redoStack := [], pausedItem := empty_item\<rparr>)"

text \<open>Modelled from the spec: the normal completion of a batch, steps (a) to (d) of
  section 4.2.\<close>

definition commit ::
  "('s, 'op) storage_engine \<Rightarrow> nat \<Rightarrow> ('op, 'v) batch_buffer \<Rightarrow> ('s, 'op, 'v) room_state
     \<Rightarrow> ('s, 'op, 'v) room_state" where
  "commit E cap b r =
     (case apply_ops E (buffered_ops b) (storage r) of (s', invs) \<Rightarrow>
        let d = latest_delta (buffered_presence b);
            item = \<lparr>inverse_ops = invs,
                    inverse_presence = inverse_delta (presence r) (history_delta (buffered_presence b))\<rparr>;
            r1 = record_history cap item
                   (r\<lparr>storage := s', presence := merge_presence (presence r) d,
                      outbox := outbox r @ [Message (buffered_ops b) d]\<rparr>)
        in r1\<lparr>notifications := notifications r @ changed_targets E (buffered_ops b) d r r1\<rparr>)"

text \<open>Modelled from the spec: \<^verbatim>\<open>runBatch(fn)\<close>. "On an exception inside fn, the batch is
  discarded: no operations are applied, nothing is sent, no history entry is
  created, and the exception propagates to the caller."\<close>

definition runBatch ::
  "('s, 'op) storage_engine \<Rightarrow> nat \<Rightarrow> ('op, 'v) command list \<Rightarrow> ('s, 'op, 'v) room_state
     \<Rightarrow> ('s, 'op, 'v) room_state \<times> (error + unit)" where
  "runBatch E cap fn r =
     (case collect fn empty_buffer of
        Inl e \<Rightarrow> (r, Inl e)
      | Inr b \<Rightarrow> (commit E cap b r, Inr ()))"

subsection \<open>History Manager\<close>

text \<open>Modelled from the spec: \<^verbatim>\<open>pause()\<close> and \<^verbatim>\<open>resume()\<close> "toggle whether subsequent
  committed batches push new HistoryItems".\<close>

definition history_pause :: "('s, 'op, 'v) room_state \<Rightarrow> ('s, 'op, 'v) room_state" where
  "history_pause r = r\<lparr>paused := True\<rparr>"

definition history_resume :: "('s, 'op, 'v) room_state \<Rightarrow> ('s, 'op, 'v) room_state" where
  "history_resume r = r\<lparr>paused := False\<rparr>"

text \<open>Modelled from the spec: applying a HistoryItem "as one atomic local batch": its
  operations in order, its presence delta merged, the message sent again; the
  result is the room and the item that takes the change back.\<close>

definition apply_item ::
  "('s, 'op) storage_engine \<Rightarrow> ('op, 'v) HistoryItem \<Rightarrow> ('s, 'op, 'v) room_state
     \<Rightarrow> ('s, 'op, 'v) room_state \<times> ('op, 'v) HistoryItem" where
  "apply_item E item r =
     (case apply_ops E (inverse_ops item) (storage r) of (s', invs) \<Rightarrow>
        (r\<lparr>storage := s', presence := merge_presence (presence r) (inverse_presence item),
           outbox := outbox r @ [Message (inverse_ops item) (inverse_presence item)]\<rparr>,
         \<lparr>inverse_ops = invs,
          inverse_presence = inverse_delta (presence r) (inverse_presence item)\<rparr>))"

text \<open>Modelled from the spec: "undo(): pops the top undo HistoryItem, applies its inverse
  operations as one atomic local batch, re-sends them, and pushes the original
  forward onto the redo stack." With nothing to undo the call does nothing.\<close>

definition history_undo ::
  "('s, 'op) storage_engine \<Rightarrow> nat \<Rightarrow> ('s, 'op, 'v) room_state \<Rightarrow> ('s, 'op, 'v) room_state" where
  "history_undo E cap r =
     (case undoStack r of
        [] \<Rightarrow> r
      | item # rest \<Rightarrow>
          (case apply_item E item r of (r1, forward) \<Rightarrow>
             let r2 = r1\<lparr>undoStack := rest, redoStack := push cap forward (redoStack r)\<rparr>
             in r2\<lparr>notifications := notifications r
                      @ changed_targets E (inverse_ops item) (inverse_presence item) r r2\<rparr>))"

text \<open>Modelled from the spec: "redo() is symmetric": the top of the redo stack is applied
  and its inverse goes back onto the undo stack. The redo stack keeps its other
  items, or a second \<^verbatim>\<open>redo()\<close> would find nothing.\<close>

definition history_redo ::
  "('s, 'op) storage_engine \<Rightarrow> nat \<Rightarrow> ('s, 'op, 'v) room_state \<Rightarrow> ('s, 'op, 'v) room_state" where
  "history_redo E cap r =
     (case redoStack r of
        [] \<Rightarrow> r
      | item # rest \<Rightarrow>
          (case apply_item E item r of (r1, backward) \<Rightarrow>
             let r2 = r1\<lparr>redoStack := rest, undoStack := push cap backward (undoStack r)\<rparr>
             in r2\<lparr>notifications := notifications r
                      @ changed_targets E (inverse_ops item) (inverse_presence item) r r2\<rparr>))"

subsection \<open>Notions used to state the properties of the engine\<close>

text \<open>Modelled from the spec: the Storage operations a function issues inside a batch, in
  the order it issues them, those of nested batches at their place; nothing is
  issued after a \<^verbatim>\<open>throw\<close>.\<close>

fun issued_ops :: "('op, 'v) command list \<Rightarrow> 'op list" where
  "issued_ops [] = []"
| "issued_ops (Mutate op # cs) = op # issued_ops cs"
| "issued_ops (UpdatePresence d h # cs) = issued_ops cs"
| "issued_ops (Batch inner # cs) = issued_ops inner @ issued_ops cs"
| "issued_ops (Throw e # cs) = []"

text \<open>Modelled from the spec: likewise the presence updates a function issues inside a
  batch, each with its \<^verbatim>\<open>addToHistory\<close> flag.\<close>

fun issued_presence :: "('op, 'v) command list \<Rightarrow> ('v presence_delta \<times> bool) list" where
  "issued_presence [] = []"
| "issued_presence (Mutate op # cs) = issued_presence cs"
| "issued_presence (UpdatePresence d h # cs) = (d, h) # issued_presence cs"
| "issued_presence (Batch inner # cs) = issued_presence inner @ issued_presence cs"
| "issued_presence (Throw e # cs) = []"

text \<open>Modelled from the spec: the state that batch atomicity and the undo/redo round trip
  speak of, Storage and Presence.\<close>

definition view :: "('s, 'op, 'v) room_state \<Rightarrow> 's \<times> 'v presence" where
  "view r = (storage r, presence r)"

text \<open>Modelled from the spec: "any sequence of N batches", run one after the other.\<close>

fun run_batches ::
  "('s, 'op) storage_engine \<Rightarrow> nat \<Rightarrow> ('op, 'v) command list list \<Rightarrow> ('s, 'op, 'v) room_state
     \<Rightarrow> ('s, 'op, 'v) room_state" where
  "run_batches E cap [] r = r"
| "run_batches E cap (fn # fns) r = run_batches E cap fns (fst (runBatch E cap fn r))"

text \<open>Modelled from the spec: what the spec asks of the engine's inverse operations, which
  it does not define: applying the inverse of an operation right after the
  operation gives the storage back.\<close>

definition inverse_exact :: "('s, 'op) storage_engine \<Rightarrow> bool" where
  "inverse_exact E =
     (\<forall>op s. fst (applyLocal E (snd (applyLocal E op s)) (fst (applyLocal E op s))) = s)"

text \<open>What applying a HistoryItem does to Storage and Presence, and the item it
  returns, as functions of Storage and Presence alone; and the states a stack of
  items leads through, from the top down.\<close>

definition step_view ::
  "('s, 'op) storage_engine \<Rightarrow> ('op, 'v) HistoryItem \<Rightarrow> 's \<times> 'v presence \<Rightarrow> 's \<times> 'v presence" where
  "step_view E item v =
     (fst (apply_ops E (inverse_ops item) (fst v)), merge_presence (snd v) (inverse_presence item))"

definition back_item ::
  "('s, 'op) storage_engine \<Rightarrow> ('op, 'v) HistoryItem \<Rightarrow> 's \<times> 'v presence \<Rightarrow> ('op, 'v) HistoryItem" where
  "back_item E item v =
     \<lparr>inverse_ops = snd (apply_ops E (inverse_ops item) (fst v)),
      inverse_presence = inverse_delta (snd v) (inverse_presence item)\<rparr>"

fun walk ::
  "('s, 'op) storage_engine \<Rightarrow> 's \<times> 'v presence \<Rightarrow> ('op, 'v) HistoryItem list
     \<Rightarrow> ('s \<times> 'v presence) list" where
  "walk E v [] = []"
| "walk E v (item # items) = step_view E item v # walk E (step_view E item v) items"

text \<open>Modelled from the spec: the "HistoryItem covering the whole batch": the inverses
  of the operations \<open>ops\<close> applied to the room \<open>r\<close>, and the inverse of the
  presence updates \<open>us\<close> that opted into history.\<close>

definition batch_item ::
  "('s, 'op) storage_engine \<Rightarrow> 'op list \<Rightarrow> ('v presence_delta \<times> bool) list
     \<Rightarrow> ('s, 'op, 'v) room_state \<Rightarrow> ('op, 'v) HistoryItem" where
  "batch_item E ops us r =
     \<lparr>inverse_ops = snd (apply_ops E ops (storage r)),
      inverse_presence = inverse_delta (presence r) (history_delta us)\<rparr>"

text \<open>A room stands at position \<open>j\<close> of a list \<open>T\<close> of states when it shows the
  state \<open>T ! j\<close>, the top of its undo stack leads down through the states before
  \<open>j\<close>, the top of its redo stack leads up through the states after \<open>j\<close>, and
  the two stacks together hold no more than the bound.\<close>

definition stands_at ::
  "('s, 'op) storage_engine \<Rightarrow> nat \<Rightarrow> ('s \<times> 'v presence) list \<Rightarrow> nat \<Rightarrow> ('s, 'op, 'v) room_state \<Rightarrow> bool" where
  "stands_at E cap T j r =
     (j < length T \<and> view r = T ! j
      \<and> walk E (view r) (take j (undoStack r)) = rev (take j T)
      \<and> walk E (view r) (take (length T - Suc j) (redoStack r)) = drop (Suc j) T
      \<and> j \<le> length (undoStack r) \<and> length T - Suc j \<le> length (redoStack r)
      \<and> length (undoStack r) + length (redoStack r) \<le> cap)"

section \<open>Properties of the bindings\<close>

lemma and_then_Inl [simp]: "and_then (Inl e) f = Inl e"
  by (simp add: and_then_def)

lemma and_then_Inr [simp]: "and_then (Inr a) f = f a"
  by (simp add: and_then_def)

lemma useRoom_None: "useRoom None = Inl (Error ''RoomProvider is missing from the react tree'')"
  by (simp add: useRoom_def)

lemma useRoom_Some: "useRoom (Some room) = Inr room"
  by (simp add: useRoom_def)

lemma useStorageValue_None:
  "useStorageValue None root_cell key = Inl (Error ''RoomProvider is missing from the react tree'')"
  by (simp add: useStorageValue_def useRoom_None)

lemma throws_after: "isl (and_then g (\<lambda>_. Inl e))"
  by (cases g) simp_all

subsection \<open>Hooks outside of a provider\<close>



subsection \<open>The initial values of \<^verbatim>\<open>RoomProvider\<close>\<close>

lemma cleanup_no_Enter: "Enter c i opts \<notin> set (cleanup fb)"
  by (auto simp: cleanup_def split: option.splits)

text \<open>Once the ref cell and the state cell are filled, a render leaves the ref cell
  as it is, and each \<^verbatim>\<open>enter\<close> it makes takes its options from the ref cell.\<close>

lemma later_render:
  assumes "frozen_cell fb = Some F" and "room_cell fb \<noteq> None"
    and "RoomProvider e c p fb = Inr (fb', r, calls)"
  shows "frozen_cell fb' = Some F \<and> room_cell fb' \<noteq> None \<and>
     (\<forall>c' i opts. Enter c' i opts \<in> set calls \<longrightarrow> opts = enter_options_of F (window_undefined e))"
  using assms
  by (auto simp: RoomProvider_def Let_def useInitial_def cleanup_def and_then_def
      split: if_splits sum.splits option.splits prod.splits)

text \<open>The first render fills the ref cell with its own props; both of its \<^verbatim>\<open>enter\<close>
  calls (the state initialiser's and the effect's) carry these.\<close>

lemma first_render:
  assumes "RoomProvider e c p mount_fiber = Inr (fb', r, calls)"
  shows "frozen_cell fb' = Some (initializers_of p) \<and> room_cell fb' \<noteq> None \<and>
     (\<forall>c' i opts. Enter c' i opts \<in> set calls \<longrightarrow>
        opts = enter_options_of (initializers_of p) (window_undefined e))"
  using assms
  by (auto simp: RoomProvider_def Let_def useInitial_def cleanup_def mount_fiber_def and_then_def
      split: if_splits sum.splits option.splits prod.splits)

lemma renders_frozen:
  assumes "frozen_cell fb = Some F" and "room_cell fb \<noteq> None"
    and "Enter c i opts \<in> set (renders e rs fb)"
  shows "opts = enter_options_of F (window_undefined e)"
  using assms
proof (induction rs arbitrary: fb)
  case Nil
  then show ?case by simp
next
  case (Cons r rs)
  obtain cl p where r: "r = (cl, p)" by (cases r)
  show ?case
  proof (cases "RoomProvider e cl p fb")
    case (Inl err)
    with Cons.prems r show ?thesis by (simp add: cleanup_no_Enter)
  next
    case (Inr t)
    obtain fb' room calls where t: "t = (fb', room, calls)" by (cases t)
    from later_render [OF Cons.prems(1,2) Inr [unfolded t]]
    have inv: "frozen_cell fb' = Some F" "room_cell fb' \<noteq> None"
      and calls: "\<And>c' i opts. Enter c' i opts \<in> set calls
                    \<Longrightarrow> opts = enter_options_of F (window_undefined e)"
      by blast+
    from Cons.prems(3) r Inr t
    have "Enter c i opts \<in> set calls \<or> Enter c i opts \<in> set (renders e rs fb')" by simp
    then show ?thesis using calls Cons.IH [OF inv] by blast
  qed
qed

lemma renders_from_mount:
  assumes "Enter c i opts \<in> set (renders e ((c0, first) # rest) mount_fiber)"
  shows "opts = enter_options_of (initializers_of first) (window_undefined e)"
proof (cases "RoomProvider e c0 first mount_fiber")
  case (Inl err)
  with assms show ?thesis by (simp add: cleanup_no_Enter)
next
  case (Inr t)
  obtain fb' room calls where t: "t = (fb', room, calls)" by (cases t)
  from first_render [OF Inr [unfolded t]]
  have inv: "frozen_cell fb' = Some (initializers_of first)" "room_cell fb' \<noteq> None"
    and calls: "\<And>c' i opts. Enter c' i opts \<in> set calls
                  \<Longrightarrow> opts = enter_options_of (initializers_of first) (window_undefined e)"
    by blast+
  from assms Inr t
  have "Enter c i opts \<in> set calls \<or> Enter c i opts \<in> set (renders e rest fb')" by simp
  then show ?thesis using calls renders_frozen [OF inv] by blast
qed

text \<open>
  Claim C10. Take a \<^verbatim>\<open>RoomProvider\<close> from its mount through any sequence of renders,
  each with its own client and props. Every \<^verbatim>\<open>client.enter\<close> call it makes, on
  whatever render and for whatever room id, is given the \<^verbatim>\<open>initialPresence\<close> and
  the \<^verbatim>\<open>initialStorage\<close> of the props of the first render (and likewise the two
  deprecated \<^verbatim>\<open>default...\<close> fields): later changes of these props are ignored,
  also by the re-enter that follows a change of the room id.
\<close>

theorem RoomProvider_enters_with_first_render_values:
  assumes "Enter c i opts \<in> set (renders e ((c0, first) # rest) mount_fiber)"
  shows "initialPresence opts = initialPresence first
       \<and> initialStorage opts = initialStorage first
       \<and> defaultPresence opts = defaultPresence first
       \<and> defaultStorageRoot opts = defaultStorageRoot first"
  using renders_from_mount [OF assms]
  by (simp add: enter_options_of_def initializers_of_def)

text \<open>A run: the second render changes the room id from \<^verbatim>\<open>"a"\<close> to \<^verbatim>\<open>"b"\<close> and all
  initial values. The component leaves \<^verbatim>\<open>"a"\<close> and enters \<^verbatim>\<open>"b"\<close> with the presence \<open>1\<close>
  and the storage \<open>10\<close> of the first render.\<close>

theorem RoomProvider_enters_with_first_render_values_witness:
  "Enter (0 :: nat) (IdString ''b'')
       \<lparr>initialPresence = Some (1 :: nat), initialStorage = Some (10 :: nat),
        defaultPresence = None, defaultStorageRoot = None,
        DO_NOT_USE_withoutConnecting = False\<rparr>
     \<in> set (renders
          \<lparr>production = False, window_undefined = False,
           errorIf = (\<lambda>b m. if b then Inl (Error m) else Inr ()),
           enter = (\<lambda>c i opts. i)\<rparr>
          [(0, \<lparr>initialPresence = Some 1, initialStorage = Some 10, defaultPresence = None,
                defaultStorageRoot = None, id_prop = IdString ''a''\<rparr>),
           (0, \<lparr>initialPresence = Some 2, initialStorage = Some 20, defaultPresence = None,
                defaultStorageRoot = None, id_prop = IdString ''b''\<rparr>)]
          mount_fiber)
   \<and> initialPresence
       \<lparr>initialPresence = Some (1 :: nat), initialStorage = Some (10 :: nat),
        defaultPresence = None, defaultStorageRoot = None,
        DO_NOT_USE_withoutConnecting = False\<rparr> = Some 1"
proof -
  have mem: "Enter (0 :: nat) (IdString ''b'')
       \<lparr>initialPresence = Some (1 :: nat), initialStorage = Some (10 :: nat),
        defaultPresence = None, defaultStorageRoot = None,
        DO_NOT_USE_withoutConnecting = False\<rparr>
     \<in> set (renders
          \<lparr>production = False, window_undefined = False,
           errorIf = (\<lambda>b m. if b then Inl (Error m) else Inr ()),
           enter = (\<lambda>c i opts. i)\<rparr>
          ((0, \<lparr>initialPresence = Some 1, initialStorage = Some 10, defaultPresence = None,
                defaultStorageRoot = None, id_prop = IdString ''a''\<rparr>) #
           [(0, \<lparr>initialPresence = Some 2, initialStorage = Some 20, defaultPresence = None,
                defaultStorageRoot = None, id_prop = IdString ''b''\<rparr>)])
          mount_fiber)"
    by (simp add: RoomProvider_def mount_fiber_def useInitial_def enter_options_of_def
        initializers_of_def cleanup_def Let_def)
  from RoomProvider_enters_with_first_render_values [OF mem] mem show ?thesis by simp
qed

end
